theory Spec2Isabelle
  imports Main "HOL-Library.AList" "HOL-Library.Word"
begin

section \<open>Strings and numbers of the host language\<close>

text \<open>
  The source is TypeScript. Its strings are sequences of code units, written here as HOL
  strings. The functions of this section follow the library functions the source calls
  (\<open>trim\<close>, \<open>toUpperCase\<close>, \<open>slice\<close>, \<open>split\<close>, \<open>parseInt\<close>, ...). They are exact
  on ASCII text; a code unit above U+007F is carried through unchanged. A number read by
  \<open>parseInt\<close> is an integer or \<open>NaN\<close>; integers are unbounded here, which is exact in
  the safe-integer range of a double, and negative zero is identified with zero.
\<close>

datatype jsnum = NaN | Num int

definition backslash :: char where
  "backslash = CHR 0x5C"

definition newline :: char where
  "newline = CHR 0x0A"

text \<open>\<open>s.charCodeAt(i)\<close> of one character.\<close>

definition code :: "char \<Rightarrow> nat" where
  "code c = of_char c"

definition isDigit :: "char \<Rightarrow> bool" where
  "isDigit c = (48 \<le> code c \<and> code c \<le> 57)"

definition digitVal :: "char \<Rightarrow> nat" where
  "digitVal c = code c - 48"

definition digitChar :: "nat \<Rightarrow> char" where
  "digitChar n = char_of (48 + n)"

text \<open>The white space that \<open>trim\<close> and \<open>parseInt\<close> strip (ASCII part).\<close>

definition isSpace :: "char \<Rightarrow> bool" where
  "isSpace c = (c = CHR '' '' \<or> (9 \<le> code c \<and> code c \<le> 13))"

definition trimStart :: "string \<Rightarrow> string" where
  "trimStart s = dropWhile isSpace s"

definition trim :: "string \<Rightarrow> string" where
  "trim s = rev (dropWhile isSpace (rev (dropWhile isSpace s)))"

definition upperChar :: "char \<Rightarrow> char" where
  "upperChar c = (if 97 \<le> code c \<and> code c \<le> 122 then char_of (code c - 32) else c)"

definition toUpperCase :: "string \<Rightarrow> string" where
  "toUpperCase s = map upperChar s"

text \<open>\<open>s.slice(a, b)\<close> and \<open>s.slice(a)\<close> for indices that are not negative.\<close>

definition slice :: "nat \<Rightarrow> nat \<Rightarrow> 'a list \<Rightarrow> 'a list" where
  "slice a b s = take (b - a) (drop a s)"

definition sliceFrom :: "nat \<Rightarrow> 'a list \<Rightarrow> 'a list" where
  "sliceFrom a s = drop a s"

definition startsWith :: "string \<Rightarrow> string \<Rightarrow> bool" where
  "startsWith p s = (take (length p) s = p)"

definition endsWith :: "string \<Rightarrow> string \<Rightarrow> bool" where
  "endsWith p s = (length p \<le> length s \<and> drop (length s - length p) s = p)"

text \<open>\<open>s.indexOf(c)\<close> for a single character; \<open>None\<close> stands for \<open>-1\<close>.\<close>

fun indexOf :: "char \<Rightarrow> string \<Rightarrow> nat option" where
  "indexOf c [] = None"
| "indexOf c (x # xs) =
     (if x = c then Some 0 else (case indexOf c xs of None \<Rightarrow> None | Some i \<Rightarrow> Some (Suc i)))"

text \<open>\<open>s.split(c)\<close> for a single character: never an empty list.\<close>

fun split :: "char \<Rightarrow> string \<Rightarrow> string list" where
  "split c [] = [[]]"
| "split c (x # xs) =
     (if x = c then [] # split c xs
      else (case split c xs of [] \<Rightarrow> [[x]] | p # ps \<Rightarrow> (x # p) # ps))"

text \<open>\<open>xs.join(sep)\<close>.\<close>

fun join :: "'a list \<Rightarrow> 'a list list \<Rightarrow> 'a list" where
  "join sep [] = []"
| "join sep [x] = x"
| "join sep (x # y # ys) = x @ sep @ join sep (y # ys)"

definition padStart :: "nat \<Rightarrow> char \<Rightarrow> string \<Rightarrow> string" where
  "padStart n c s = replicate (n - length s) c @ s"

text \<open>Decimal notation, as \<open>String(n)\<close> prints an integer.\<close>

fun showNat :: "nat \<Rightarrow> string" where
  "showNat n = (if n < 10 then [digitChar n] else showNat (n div 10) @ [digitChar (n mod 10)])"

declare showNat.simps [simp del]

definition showInt :: "int \<Rightarrow> string" where
  "showInt i = (if i < 0 then CHR ''-'' # showNat (nat (- i)) else showNat (nat i))"

fun numToString :: "jsnum \<Rightarrow> string" where
  "numToString NaN = ''NaN''"
| "numToString (Num i) = showInt i"

text \<open>The value of a run of decimal digits, read left to right.\<close>

fun digitsVal :: "nat \<Rightarrow> string \<Rightarrow> nat" where
  "digitsVal acc [] = acc"
| "digitsVal acc (c # cs) = digitsVal (acc * 10 + digitVal c) cs"

text \<open>
  \<open>parseInt(s, 10)\<close>: leading white space is skipped, one sign is read, then the longest
  run of digits; with no digit the result is \<open>NaN\<close>.
\<close>

definition parseDigits :: "string \<Rightarrow> nat option" where
  "parseDigits s = (let ds = takeWhile isDigit s in if ds = [] then None else Some (digitsVal 0 ds))"

definition parseInt :: "string \<Rightarrow> jsnum" where
  "parseInt s =
     (case trimStart s of
        [] \<Rightarrow> NaN
      | c # cs \<Rightarrow>
          if c = CHR ''-'' then (case parseDigits cs of None \<Rightarrow> NaN | Some n \<Rightarrow> Num (- int n))
          else if c = CHR ''+'' then (case parseDigits cs of None \<Rightarrow> NaN | Some n \<Rightarrow> Num (int n))
          else (case parseDigits (c # cs) of None \<Rightarrow> NaN | Some n \<Rightarrow> Num (int n)))"

text \<open>Truthiness of an optional number: absent, zero and \<open>NaN\<close> are falsy.\<close>

fun truthy :: "jsnum option \<Rightarrow> bool" where
  "truthy None = False"
| "truthy (Some NaN) = False"
| "truthy (Some (Num i)) = (i \<noteq> 0)"

text \<open>
  \<open>s.replace(/ab/g, r)\<close> for a pattern of two characters, each given as a predicate so
  that a character class or a case-insensitive pattern fits, and \<open>s.replace(/c/g, r)\<close>
  for a pattern of one character. Matches are found left to right and do not overlap.
\<close>

fun replacePair :: "(char \<Rightarrow> bool) \<Rightarrow> (char \<Rightarrow> bool) \<Rightarrow> string \<Rightarrow> string \<Rightarrow> string" where
  "replacePair P Q r (x # y # s) =
     (if P x \<and> Q y then r @ replacePair P Q r s else x # replacePair P Q r (y # s))"
| "replacePair P Q r s = s"

definition replaceEscaped :: "(char \<Rightarrow> bool) \<Rightarrow> string \<Rightarrow> string \<Rightarrow> string" where
  "replaceEscaped Q r s = replacePair (\<lambda>c. c = backslash) Q r s"

definition replaceChar :: "char \<Rightarrow> string \<Rightarrow> string \<Rightarrow> string" where
  "replaceChar c r s = concat (map (\<lambda>x. if x = c then r else [x]) s)"

section \<open>Typed values and properties\<close>

text \<open>
  The records follow the interfaces of the typed values; the discriminant tag of an
  interface is the constructor of \<open>ical_value\<close> below. An optional field that is
  \<open>undefined\<close> is \<open>None\<close>. A floating-point number is never inspected
  by the code under study: it is kept as the text that \<open>parseFloat\<close> was applied to.
\<close>

datatype jsfloat = ParseFloat string

record ical_date =
  date_year :: jsnum
  date_month :: jsnum
  date_day :: jsnum

record ical_datetime =
  year :: jsnum
  month :: jsnum
  day :: jsnum
  hour :: jsnum
  minute :: jsnum
  second :: jsnum
  utc :: bool
  tzid :: "string option"

record ical_time =
  time_hour :: jsnum
  time_minute :: jsnum
  time_second :: jsnum
  time_utc :: bool

datatype offset_sign = Plus | Minus

record ical_utc_offset =
  off_sign :: offset_sign
  off_hours :: jsnum
  off_minutes :: jsnum
  off_seconds :: "jsnum option"

record ical_duration =
  negative :: bool
  weeks :: "jsnum option"
  days :: "jsnum option"
  hours :: "jsnum option"
  minutes :: "jsnum option"
  seconds :: "jsnum option"

datatype period_end = EndDateTime ical_datetime | EndDuration ical_duration

record ical_period =
  period_start :: ical_datetime
  period_end :: period_end

datatype RecurFreq = SECONDLY | MINUTELY | HOURLY | DAILY | WEEKLY | MONTHLY | YEARLY

datatype Weekday = SU | MO | TU | WE | TH | FR | SA

record ByDayRule =
  bd_day :: Weekday
  ordwk :: "jsnum option"

datatype recur_until = UntilDate ical_date | UntilDateTime ical_datetime

record ical_recur =
  freq :: RecurFreq
  until :: "recur_until option"
  count :: "jsnum option"
  interval :: "jsnum option"
  bysecond :: "jsnum list option"
  byminute :: "jsnum list option"
  byhour :: "jsnum list option"
  byday :: "ByDayRule list option"
  bymonthday :: "jsnum list option"
  byyearday :: "jsnum list option"
  byweekno :: "jsnum list option"
  bymonth :: "jsnum list option"
  bysetpos :: "jsnum list option"
  wkst :: "Weekday option"

record ical_geo =
  latitude :: jsfloat
  longitude :: jsfloat

type_synonym buffer = "8 word list"

datatype ical_value =
    VText string
  | VBool bool
  | VNum jsnum
  | VFloat jsfloat
  | VBinary buffer
  | VUtcOffset ical_utc_offset
  | VDate ical_date
  | VDateTime ical_datetime
  | VTime ical_time
  | VDuration ical_duration
  | VPeriod ical_period
  | VRecur ical_recur
  | VGeo ical_geo

text \<open>An error object, with its message.\<close>

datatype error = Error string

text \<open>A property holds one value or a list of values.\<close>

datatype prop_value = Single ical_value | Multi "ical_value list"

text \<open>
  A parameter value is one string or a list of strings. A parameter mapping is an object
  of the host language; it is kept as an association list in insertion order, a later
  assignment to a key that is present replacing the value in place.
\<close>

datatype param_value = PStr string | PList "string list"

type_synonym params = "(string \<times> param_value) list"

record Property =
  name :: string
  params :: params
  pvalue :: prop_value
  rawValue :: string

text \<open>The constructor of \<open>Property\<close>: the name is upper-cased.\<close>

definition newProperty :: "string \<Rightarrow> prop_value \<Rightarrow> params \<Rightarrow> string \<Rightarrow> Property" where
  "newProperty n v ps raw = \<lparr>name = toUpperCase n, params = ps, pvalue = v, rawValue = raw\<rparr>"

section \<open>Value codecs\<close>

subsection \<open>TEXT\<close>

definition TEXT_parse :: "string \<Rightarrow> string" where
  "TEXT_parse raw =
     replaceEscaped (\<lambda>c. c = backslash) [backslash]
       (replaceEscaped (\<lambda>c. c = CHR '';'') '';''
         (replaceEscaped (\<lambda>c. c = CHR '','') '',''
           (replaceEscaped (\<lambda>c. c = CHR ''n'' \<or> c = CHR ''N'') [newline] raw)))"

definition TEXT_serialize :: "string \<Rightarrow> string" where
  "TEXT_serialize val =
     replaceChar newline [backslash, CHR ''n'']
       (replaceChar CHR '','' [backslash, CHR '','']
         (replaceChar CHR '';'' [backslash, CHR '';'']
           (replaceChar backslash [backslash, backslash] val)))"

subsection \<open>BOOLEAN, INTEGER, FLOAT, URI\<close>

definition BOOLEAN_parse :: "string \<Rightarrow> bool" where
  "BOOLEAN_parse raw = (toUpperCase (trim raw) = ''TRUE'')"

definition INTEGER_parse :: "string \<Rightarrow> jsnum" where
  "INTEGER_parse raw = parseInt (trim raw)"

definition FLOAT_parse :: "string \<Rightarrow> jsfloat" where
  "FLOAT_parse raw = ParseFloat (trim raw)"

definition URI_parse :: "string \<Rightarrow> string" where
  "URI_parse raw = trim raw"

subsection \<open>BINARY\<close>

text \<open>
  The codec calls the platform's base64 functions. They are modelled after RFC 4648: the
  encoder pads with \<open>=\<close>; the decoder skips a character outside the alphabet, stops at
  the first \<open>=\<close>, and also reads the URL-safe characters \<open>-\<close> and \<open>_\<close>.
\<close>

definition b64chars :: string where
  "b64chars = ''ABCDEFGHIJKLMNOPQRSTUVWXYZabcdefghijklmnopqrstuvwxyz0123456789+/''"

definition b64char :: "nat \<Rightarrow> char" where
  "b64char i = b64chars ! i"

definition unbase64 :: "char \<Rightarrow> nat option" where
  "unbase64 c =
     (if c = CHR ''-'' then Some 62 else if c = CHR ''_'' then Some 63
      else indexOf c b64chars)"

fun b64encode :: "buffer \<Rightarrow> string" where
  "b64encode [] = []"
| "b64encode [a] =
     [b64char (unat a div 4), b64char ((unat a mod 4) * 16), CHR ''='', CHR ''='']"
| "b64encode [a, b] =
     [b64char (unat a div 4), b64char ((unat a mod 4) * 16 + unat b div 16),
      b64char ((unat b mod 16) * 4), CHR ''='']"
| "b64encode (a # b # c # rest) =
     [b64char (unat a div 4), b64char ((unat a mod 4) * 16 + unat b div 16),
      b64char ((unat b mod 16) * 4 + unat c div 64), b64char (unat c mod 64)] @ b64encode rest"

text \<open>The sextets of the legal characters before the first \<open>=\<close>.\<close>

fun sextets :: "string \<Rightarrow> nat list" where
  "sextets [] = []"
| "sextets (c # cs) =
     (if c = CHR ''='' then []
      else (case unbase64 c of Some v \<Rightarrow> v # sextets cs | None \<Rightarrow> sextets cs))"

fun b64bytes :: "nat list \<Rightarrow> buffer" where
  "b64bytes (s0 # s1 # s2 # s3 # rest) =
     [of_nat (s0 * 4 + s1 div 16), of_nat ((s1 mod 16) * 16 + s2 div 4),
      of_nat ((s2 mod 4) * 64 + s3)] @ b64bytes rest"
| "b64bytes [s0, s1, s2] = [of_nat (s0 * 4 + s1 div 16), of_nat ((s1 mod 16) * 16 + s2 div 4)]"
| "b64bytes [s0, s1] = [of_nat (s0 * 4 + s1 div 16)]"
| "b64bytes _ = []"

definition b64decode :: "string \<Rightarrow> buffer" where
  "b64decode s = b64bytes (sextets s)"

definition BINARY_parse :: "string \<Rightarrow> buffer" where
  "BINARY_parse raw = b64decode (trim raw)"

definition BINARY_serialize :: "buffer \<Rightarrow> string" where
  "BINARY_serialize val = b64encode val"

subsection \<open>UTC-OFFSET, DATE, DATE-TIME, TIME\<close>

definition pad2 :: "jsnum \<Rightarrow> string" where
  "pad2 n = padStart 2 CHR ''0'' (numToString n)"

definition pad4 :: "jsnum \<Rightarrow> string" where
  "pad4 n = padStart 4 CHR ''0'' (numToString n)"

definition UTC_OFFSET_parse :: "string \<Rightarrow> ical_utc_offset" where
  "UTC_OFFSET_parse raw =
     (let s = trim raw in
      \<lparr>off_sign = (if startsWith ''-'' s then Minus else Plus),
       off_hours = parseInt (slice 1 3 s),
       off_minutes = parseInt (slice 3 5 s),
       off_seconds = (if length s \<ge> 7 then Some (parseInt (slice 5 7 s)) else None)\<rparr>)"

definition UTC_OFFSET_serialize :: "ical_utc_offset \<Rightarrow> string" where
  "UTC_OFFSET_serialize val =
     (let base = (case off_sign val of Plus \<Rightarrow> ''+'' | Minus \<Rightarrow> ''-'')
                 @ pad2 (off_hours val) @ pad2 (off_minutes val)
      in case off_seconds val of Some sec \<Rightarrow> base @ pad2 sec | None \<Rightarrow> base)"

definition DATE_parse :: "string \<Rightarrow> ical_date" where
  "DATE_parse raw =
     (let s = trim raw in
      \<lparr>date_year = parseInt (slice 0 4 s),
       date_month = parseInt (slice 4 6 s),
       date_day = parseInt (slice 6 8 s)\<rparr>)"

text \<open>The serializers of DATE and DATE-TIME, for a typed value (not a \<open>Date\<close> object).\<close>

definition DATE_serialize :: "ical_date \<Rightarrow> string" where
  "DATE_serialize val = pad4 (date_year val) @ pad2 (date_month val) @ pad2 (date_day val)"

text \<open>\<open>typeof params?.['TZID'] === 'string' ? params['TZID'] : undefined\<close>.\<close>

definition stringParam :: "string \<Rightarrow> params \<Rightarrow> string option" where
  "stringParam k ps = (case map_of ps k of Some (PStr v) \<Rightarrow> Some v | _ \<Rightarrow> None)"

definition DATE_TIME_parse :: "string \<Rightarrow> params \<Rightarrow> ical_datetime" where
  "DATE_TIME_parse raw ps =
     (let s = trim raw;
          z = endsWith ''Z'' s;
          core = (if z then butlast s else s)
      in \<lparr>year = parseInt (slice 0 4 core),
          month = parseInt (slice 4 6 core),
          day = parseInt (slice 6 8 core),
          hour = parseInt (slice 9 11 core),
          minute = parseInt (slice 11 13 core),
          second = parseInt (slice 13 15 core),
          utc = z,
          tzid = stringParam ''TZID'' ps\<rparr>)"

definition DATE_TIME_serialize :: "ical_datetime \<Rightarrow> string" where
  "DATE_TIME_serialize val =
     (let core = pad4 (year val) @ pad2 (month val) @ pad2 (day val) @ ''T''
                 @ pad2 (hour val) @ pad2 (minute val) @ pad2 (second val)
      in if utc val then core @ ''Z'' else core)"

definition TIME_parse :: "string \<Rightarrow> ical_time" where
  "TIME_parse raw =
     (let s = trim raw;
          z = endsWith ''Z'' s;
          core = (if z then butlast s else s)
      in \<lparr>time_hour = parseInt (slice 0 2 core),
          time_minute = parseInt (slice 2 4 core),
          time_second = parseInt (slice 4 6 core),
          time_utc = z\<rparr>)"

subsection \<open>DURATION\<close>

text \<open>
  The patterns of the duration grammar. \<open>digitsBefore c s\<close> matches \<open>(\d+)c\<close> at the start
  of \<open>s\<close> and \<open>searchDigitsBefore c s\<close> finds the leftmost match in \<open>s\<close>, both giving the
  digits captured; \<open>weekMatch\<close> is \<open>/^(\d+)W$/\<close>.
\<close>

definition digitsBefore :: "char \<Rightarrow> string \<Rightarrow> string option" where
  "digitsBefore c s =
     (let ds = takeWhile isDigit s
      in if ds \<noteq> [] \<and> startsWith [c] (dropWhile isDigit s) then Some ds else None)"

fun searchDigitsBefore :: "char \<Rightarrow> string \<Rightarrow> string option" where
  "searchDigitsBefore c [] = None"
| "searchDigitsBefore c (x # xs) =
     (case digitsBefore c (x # xs) of Some ds \<Rightarrow> Some ds | None \<Rightarrow> searchDigitsBefore c xs)"

definition weekMatch :: "string \<Rightarrow> string option" where
  "weekMatch body =
     (let ds = takeWhile isDigit body
      in if ds \<noteq> [] \<and> dropWhile isDigit body = ''W'' then Some ds else None)"

text \<open>\<open>s.replace(/^[+-]/, '')\<close>.\<close>

definition dropSign :: "string \<Rightarrow> string" where
  "dropSign s = (case s of [] \<Rightarrow> [] | c # cs \<Rightarrow> if c = CHR ''+'' \<or> c = CHR ''-'' then cs else s)"

definition DURATION_parse :: "string \<Rightarrow> ical_duration" where
  "DURATION_parse raw =
     (let s = trim raw;
          neg = startsWith ''-'' s;
          str = dropSign s
      in if \<not> startsWith ''P'' str
         then \<lparr>negative = neg, weeks = None, days = Some (Num 0), hours = None,
               minutes = None, seconds = None\<rparr>
         else
           (let body = sliceFrom 1 str in
            case weekMatch body of
              Some w \<Rightarrow> \<lparr>negative = neg, weeks = Some (parseInt w), days = None, hours = None,
                          minutes = None, seconds = None\<rparr>
            | None \<Rightarrow>
                (let d = map_option parseInt (searchDigitsBefore CHR ''D'' body) in
                 case indexOf CHR ''T'' body of
                   None \<Rightarrow> \<lparr>negative = neg, weeks = None, days = d, hours = None,
                             minutes = None, seconds = None\<rparr>
                 | Some tIdx \<Rightarrow>
                     (let timePart = sliceFrom (tIdx + 1) body in
                      \<lparr>negative = neg, weeks = None, days = d,
                       hours = map_option parseInt (searchDigitsBefore CHR ''H'' timePart),
                       minutes = map_option parseInt (searchDigitsBefore CHR ''M'' timePart),
                       seconds = map_option parseInt (searchDigitsBefore CHR ''S'' timePart)\<rparr>))))"

text \<open>A unit is appended only when its value is truthy (\<open>if (val.days) s += ...\<close>).\<close>

definition unitStr :: "jsnum option \<Rightarrow> string \<Rightarrow> string" where
  "unitStr v u = (case v of Some n \<Rightarrow> if truthy v then numToString n @ u else [] | None \<Rightarrow> [])"

definition DURATION_serialize :: "ical_duration \<Rightarrow> string" where
  "DURATION_serialize val =
     (let sign = (if negative val then ''-'' else '''') in
      case weeks val of
        Some w \<Rightarrow> sign @ ''P'' @ numToString w @ ''W''
      | None \<Rightarrow>
          (let s = sign @ ''P'' @ unitStr (days val) ''D'';
               hasTime = (truthy (hours val) \<or> truthy (minutes val) \<or> truthy (seconds val));
               s' = (if hasTime
                     then s @ ''T'' @ unitStr (hours val) ''H'' @ unitStr (minutes val) ''M''
                            @ unitStr (seconds val) ''S''
                     else s)
           in if s' = [] then sign @ ''P0D'' else s'))"

subsection \<open>PERIOD\<close>

definition PERIOD_parse :: "string \<Rightarrow> error + ical_period" where
  "PERIOD_parse raw =
     (case indexOf CHR ''/'' raw of
        None \<Rightarrow> Inl (Error (''Invalid PERIOD value: '' @ raw))
      | Some slashIdx \<Rightarrow>
          (let start = DATE_TIME_parse (slice 0 slashIdx raw) [];
               endStr = trim (sliceFrom (slashIdx + 1) raw);
               e = (if startsWith ''P'' endStr \<or> startsWith ''-P'' endStr \<or> startsWith ''+P'' endStr
                    then EndDuration (DURATION_parse endStr)
                    else EndDateTime (DATE_TIME_parse endStr []))
           in Inr \<lparr>period_start = start, period_end = e\<rparr>))"

definition PERIOD_serialize :: "ical_period \<Rightarrow> string" where
  "PERIOD_serialize val =
     DATE_TIME_serialize (period_start val) @ ''/'' @
       (case period_end val of
          EndDuration d \<Rightarrow> DURATION_serialize d
        | EndDateTime t \<Rightarrow> DATE_TIME_serialize t)"

subsection \<open>RECUR\<close>

fun freqName :: "RecurFreq \<Rightarrow> string" where
  "freqName SECONDLY = ''SECONDLY''"
| "freqName MINUTELY = ''MINUTELY''"
| "freqName HOURLY = ''HOURLY''"
| "freqName DAILY = ''DAILY''"
| "freqName WEEKLY = ''WEEKLY''"
| "freqName MONTHLY = ''MONTHLY''"
| "freqName YEARLY = ''YEARLY''"

text \<open>Membership in \<open>VALID_FREQS\<close> and in \<open>VALID_WEEKDAYS\<close>, with the member found.\<close>

definition VALID_FREQS :: "string \<Rightarrow> RecurFreq option" where
  "VALID_FREQS s =
     (if s = ''SECONDLY'' then Some SECONDLY else if s = ''MINUTELY'' then Some MINUTELY
      else if s = ''HOURLY'' then Some HOURLY else if s = ''DAILY'' then Some DAILY
      else if s = ''WEEKLY'' then Some WEEKLY else if s = ''MONTHLY'' then Some MONTHLY
      else if s = ''YEARLY'' then Some YEARLY else None)"

fun weekdayName :: "Weekday \<Rightarrow> string" where
  "weekdayName SU = ''SU''"
| "weekdayName MO = ''MO''"
| "weekdayName TU = ''TU''"
| "weekdayName WE = ''WE''"
| "weekdayName TH = ''TH''"
| "weekdayName FR = ''FR''"
| "weekdayName SA = ''SA''"

definition VALID_WEEKDAYS :: "string \<Rightarrow> Weekday option" where
  "VALID_WEEKDAYS s =
     (if s = ''SU'' then Some SU else if s = ''MO'' then Some MO
      else if s = ''TU'' then Some TU else if s = ''WE'' then Some WE
      else if s = ''TH'' then Some TH else if s = ''FR'' then Some FR
      else if s = ''SA'' then Some SA else None)"

text \<open>
  \<open>Number(s)\<close> for the entries of the BYxxx lists: white space is trimmed, the empty
  string is zero, and a decimal integer with an optional sign is read as it stands. Any
  other text is \<open>NaN\<close> here; the host language also reads fractions, exponents and
  hexadecimal notation, which are outside the integer model.
\<close>

definition signedDigits :: "string \<Rightarrow> bool" where
  "signedDigits s =
     (case s of
        [] \<Rightarrow> False
      | c # cs \<Rightarrow> if c = CHR ''+'' \<or> c = CHR ''-'' then cs \<noteq> [] \<and> list_all isDigit cs
                  else list_all isDigit s)"

definition jsNumber :: "string \<Rightarrow> jsnum" where
  "jsNumber s =
     (let t = trim s in if t = [] then Num 0 else if signedDigits t then parseInt t else NaN)"

text \<open>
  One entry of BYDAY against \<open>/^([+-]?\d+)?(SU|MO|TU|WE|TH|FR|SA)$/i\<close>: the last two
  characters name the weekday and what stands before them is empty or a signed number.
\<close>

definition parseByDayEntry :: "string \<Rightarrow> ByDayRule" where
  "parseByDayEntry s =
     (let t = trim s;
          n = length t - 2;
          ord = take n t;
          wd = VALID_WEEKDAYS (toUpperCase (drop n t))
      in case wd of
           None \<Rightarrow> \<lparr>bd_day = MO, ordwk = None\<rparr>
         | Some d \<Rightarrow>
             if ord = [] then \<lparr>bd_day = d, ordwk = None\<rparr>
             else if signedDigits ord then \<lparr>bd_day = d, ordwk = Some (parseInt ord)\<rparr>
             else \<lparr>bd_day = MO, ordwk = None\<rparr>)"

definition parseByDay :: "string \<Rightarrow> ByDayRule list" where
  "parseByDay raw = map parseByDayEntry (split CHR '','' raw)"

text \<open>The key-value map that \<open>RECUR.parse\<close> fills from the parts of the rule.\<close>

fun recurMap :: "string list \<Rightarrow> (string \<rightharpoonup> string) \<Rightarrow> (string \<rightharpoonup> string)" where
  "recurMap [] m = m"
| "recurMap (part # parts) m =
     (case indexOf CHR ''='' part of
        None \<Rightarrow> recurMap parts m
      | Some eq \<Rightarrow> recurMap parts (m(toUpperCase (slice 0 eq part) \<mapsto> sliceFrom (eq + 1) part)))"

definition parseInts :: "(string \<rightharpoonup> string) \<Rightarrow> string \<Rightarrow> jsnum list option" where
  "parseInts m k = map_option (\<lambda>v. map jsNumber (split CHR '','' v)) (m k)"

definition parseWkst :: "(string \<rightharpoonup> string) \<Rightarrow> string \<Rightarrow> Weekday option" where
  "parseWkst m k = (case m k of None \<Rightarrow> None | Some v \<Rightarrow> VALID_WEEKDAYS (toUpperCase v))"

text \<open>A string is truthy when it is present and not empty.\<close>

definition nonEmpty :: "string option \<Rightarrow> string option" where
  "nonEmpty v = (case v of Some s \<Rightarrow> if s = [] then None else Some s | None \<Rightarrow> None)"

definition RECUR_parse :: "string \<Rightarrow> error + ical_recur" where
  "RECUR_parse raw =
     (let m = recurMap (split CHR '';'' (trim raw)) Map.empty;
          freqStr = toUpperCase (case m ''FREQ'' of Some v \<Rightarrow> v | None \<Rightarrow> [])
      in case VALID_FREQS freqStr of
           None \<Rightarrow> Inl (Error (''Invalid FREQ in RRULE: '' @ freqStr))
         | Some f \<Rightarrow>
             Inr \<lparr>freq = f,
                  until = map_option
                            (\<lambda>u. if CHR ''T'' \<in> set u then UntilDateTime (DATE_TIME_parse u [])
                                 else UntilDate (DATE_parse u))
                            (nonEmpty (m ''UNTIL'')),
                  count = map_option parseInt (m ''COUNT''),
                  interval = map_option parseInt (m ''INTERVAL''),
                  bysecond = parseInts m ''BYSECOND'',
                  byminute = parseInts m ''BYMINUTE'',
                  byhour = parseInts m ''BYHOUR'',
                  byday = map_option parseByDay (nonEmpty (m ''BYDAY'')),
                  bymonthday = parseInts m ''BYMONTHDAY'',
                  byyearday = parseInts m ''BYYEARDAY'',
                  byweekno = parseInts m ''BYWEEKNO'',
                  bymonth = parseInts m ''BYMONTH'',
                  bysetpos = parseInts m ''BYSETPOS'',
                  wkst = parseWkst m ''WKST''\<rparr>)"

text \<open>A list field is written when it is present and not empty (\<open>val.bysecond?.length\<close>).\<close>

definition intsPart :: "string \<Rightarrow> jsnum list option \<Rightarrow> string list" where
  "intsPart k v =
     (case v of
        None \<Rightarrow> []
      | Some ns \<Rightarrow> if ns = [] then [] else [k @ ''='' @ join '','' (map numToString ns)])"

definition numPart :: "string \<Rightarrow> jsnum option \<Rightarrow> string list" where
  "numPart k v = (case v of None \<Rightarrow> [] | Some n \<Rightarrow> [k @ ''='' @ numToString n])"

definition byDayStr :: "ByDayRule \<Rightarrow> string" where
  "byDayStr d =
     (case ordwk d of
        Some n \<Rightarrow> numToString n @ weekdayName (bd_day d)
      | None \<Rightarrow> weekdayName (bd_day d))"

definition RECUR_serialize :: "ical_recur \<Rightarrow> string" where
  "RECUR_serialize val =
     join '';''
       ([''FREQ='' @ freqName (freq val)]
        @ (case until val of
             None \<Rightarrow> []
           | Some (UntilDate d) \<Rightarrow> [''UNTIL='' @ DATE_serialize d]
           | Some (UntilDateTime t) \<Rightarrow> [''UNTIL='' @ DATE_TIME_serialize t])
        @ numPart ''COUNT'' (count val)
        @ numPart ''INTERVAL'' (interval val)
        @ intsPart ''BYSECOND'' (bysecond val)
        @ intsPart ''BYMINUTE'' (byminute val)
        @ intsPart ''BYHOUR'' (byhour val)
        @ (case byday val of
             None \<Rightarrow> []
           | Some ds \<Rightarrow> if ds = [] then [] else [''BYDAY='' @ join '','' (map byDayStr ds)])
        @ intsPart ''BYMONTHDAY'' (bymonthday val)
        @ intsPart ''BYYEARDAY'' (byyearday val)
        @ intsPart ''BYWEEKNO'' (byweekno val)
        @ intsPart ''BYMONTH'' (bymonth val)
        @ intsPart ''BYSETPOS'' (bysetpos val)
        @ (case wkst val of None \<Rightarrow> [] | Some w \<Rightarrow> [''WKST='' @ weekdayName w]))"

subsection \<open>GEO\<close>

definition GEO_parse :: "string \<Rightarrow> ical_geo" where
  "GEO_parse raw =
     (case split CHR '';'' raw of
        [] \<Rightarrow> \<lparr>latitude = ParseFloat ''0'', longitude = ParseFloat ''0''\<rparr>
      | [lat] \<Rightarrow> \<lparr>latitude = ParseFloat lat, longitude = ParseFloat ''0''\<rparr>
      | lat # lon # _ \<Rightarrow> \<lparr>latitude = ParseFloat lat, longitude = ParseFloat lon\<rparr>)"

subsection \<open>The codec table\<close>

datatype codec = TEXT | BOOLEAN | INTEGER | FLOAT | URI | BINARY | UTC_OFFSET | DATE
  | DATE_TIME | TIME | DURATION | PERIOD | RECUR

definition CODECS :: "string \<Rightarrow> codec option" where
  "CODECS =
     map_of [(''TEXT'', TEXT), (''BOOLEAN'', BOOLEAN), (''INTEGER'', INTEGER), (''FLOAT'', FLOAT),
       (''URI'', URI), (''CAL-ADDRESS'', URI), (''BINARY'', BINARY), (''UTC-OFFSET'', UTC_OFFSET),
       (''DATE'', DATE), (''DATE-TIME'', DATE_TIME), (''TIME'', TIME), (''DURATION'', DURATION),
       (''PERIOD'', PERIOD), (''RECUR'', RECUR)]"

text \<open>\<open>codec.parse(raw, params)\<close>: a codec returns its value or throws.\<close>

fun codec_parse :: "codec \<Rightarrow> string \<Rightarrow> params \<Rightarrow> error + ical_value" where
  "codec_parse TEXT raw ps = Inr (VText (TEXT_parse raw))"
| "codec_parse BOOLEAN raw ps = Inr (VBool (BOOLEAN_parse raw))"
| "codec_parse INTEGER raw ps = Inr (VNum (INTEGER_parse raw))"
| "codec_parse FLOAT raw ps = Inr (VFloat (FLOAT_parse raw))"
| "codec_parse URI raw ps = Inr (VText (URI_parse raw))"
| "codec_parse BINARY raw ps = Inr (VBinary (BINARY_parse raw))"
| "codec_parse UTC_OFFSET raw ps = Inr (VUtcOffset (UTC_OFFSET_parse raw))"
| "codec_parse DATE raw ps = Inr (VDate (DATE_parse raw))"
| "codec_parse DATE_TIME raw ps = Inr (VDateTime (DATE_TIME_parse raw ps))"
| "codec_parse TIME raw ps = Inr (VTime (TIME_parse raw))"
| "codec_parse DURATION raw ps = Inr (VDuration (DURATION_parse raw))"
| "codec_parse PERIOD raw ps =
     (case PERIOD_parse raw of Inl e \<Rightarrow> Inl e | Inr v \<Rightarrow> Inr (VPeriod v))"
| "codec_parse RECUR raw ps =
     (case RECUR_parse raw of Inl e \<Rightarrow> Inl e | Inr v \<Rightarrow> Inr (VRecur v))"

section \<open>The property registry and the property factory\<close>

record PropertyDef =
  defaultType :: string
  multi :: bool

definition PROPERTY_REGISTRY :: "(string \<times> PropertyDef) list" where
  "PROPERTY_REGISTRY =
     [(''CALSCALE'', \<lparr>defaultType = ''TEXT'', multi = False\<rparr>),
      (''METHOD'', \<lparr>defaultType = ''TEXT'', multi = False\<rparr>),
      (''PRODID'', \<lparr>defaultType = ''TEXT'', multi = False\<rparr>),
      (''VERSION'', \<lparr>defaultType = ''TEXT'', multi = False\<rparr>),
      (''ATTACH'', \<lparr>defaultType = ''URI'', multi = False\<rparr>),
      (''CATEGORIES'', \<lparr>defaultType = ''TEXT'', multi = True\<rparr>),
      (''CLASS'', \<lparr>defaultType = ''TEXT'', multi = False\<rparr>),
      (''COMMENT'', \<lparr>defaultType = ''TEXT'', multi = False\<rparr>),
      (''DESCRIPTION'', \<lparr>defaultType = ''TEXT'', multi = False\<rparr>),
      (''GEO'', \<lparr>defaultType = ''GEO'', multi = False\<rparr>),
      (''LOCATION'', \<lparr>defaultType = ''TEXT'', multi = False\<rparr>),
      (''PERCENT-COMPLETE'', \<lparr>defaultType = ''INTEGER'', multi = False\<rparr>),
      (''PRIORITY'', \<lparr>defaultType = ''INTEGER'', multi = False\<rparr>),
      (''RESOURCES'', \<lparr>defaultType = ''TEXT'', multi = True\<rparr>),
      (''STATUS'', \<lparr>defaultType = ''TEXT'', multi = False\<rparr>),
      (''SUMMARY'', \<lparr>defaultType = ''TEXT'', multi = False\<rparr>),
      (''COMPLETED'', \<lparr>defaultType = ''DATE-TIME'', multi = False\<rparr>),
      (''DTEND'', \<lparr>defaultType = ''DATE-TIME'', multi = False\<rparr>),
      (''DUE'', \<lparr>defaultType = ''DATE-TIME'', multi = False\<rparr>),
      (''DTSTART'', \<lparr>defaultType = ''DATE-TIME'', multi = False\<rparr>),
      (''DURATION'', \<lparr>defaultType = ''DURATION'', multi = False\<rparr>),
      (''FREEBUSY'', \<lparr>defaultType = ''PERIOD'', multi = True\<rparr>),
      (''TRANSP'', \<lparr>defaultType = ''TEXT'', multi = False\<rparr>),
      (''TZID'', \<lparr>defaultType = ''TEXT'', multi = False\<rparr>),
      (''TZNAME'', \<lparr>defaultType = ''TEXT'', multi = False\<rparr>),
      (''TZOFFSETFROM'', \<lparr>defaultType = ''UTC-OFFSET'', multi = False\<rparr>),
      (''TZOFFSETTO'', \<lparr>defaultType = ''UTC-OFFSET'', multi = False\<rparr>),
      (''TZURL'', \<lparr>defaultType = ''URI'', multi = False\<rparr>),
      (''ATTENDEE'', \<lparr>defaultType = ''CAL-ADDRESS'', multi = False\<rparr>),
      (''CONTACT'', \<lparr>defaultType = ''TEXT'', multi = False\<rparr>),
      (''ORGANIZER'', \<lparr>defaultType = ''CAL-ADDRESS'', multi = False\<rparr>),
      (''RECURRENCE-ID'', \<lparr>defaultType = ''DATE-TIME'', multi = False\<rparr>),
      (''RELATED-TO'', \<lparr>defaultType = ''TEXT'', multi = False\<rparr>),
      (''URL'', \<lparr>defaultType = ''URI'', multi = False\<rparr>),
      (''UID'', \<lparr>defaultType = ''TEXT'', multi = False\<rparr>),
      (''EXDATE'', \<lparr>defaultType = ''DATE-TIME'', multi = True\<rparr>),
      (''RDATE'', \<lparr>defaultType = ''DATE-TIME'', multi = True\<rparr>),
      (''RRULE'', \<lparr>defaultType = ''RECUR'', multi = False\<rparr>),
      (''EXRULE'', \<lparr>defaultType = ''RECUR'', multi = False\<rparr>),
      (''ACTION'', \<lparr>defaultType = ''TEXT'', multi = False\<rparr>),
      (''REPEAT'', \<lparr>defaultType = ''INTEGER'', multi = False\<rparr>),
      (''TRIGGER'', \<lparr>defaultType = ''DURATION'', multi = False\<rparr>),
      (''CREATED'', \<lparr>defaultType = ''DATE-TIME'', multi = False\<rparr>),
      (''DTSTAMP'', \<lparr>defaultType = ''DATE-TIME'', multi = False\<rparr>),
      (''LAST-MODIFIED'', \<lparr>defaultType = ''DATE-TIME'', multi = False\<rparr>),
      (''SEQUENCE'', \<lparr>defaultType = ''INTEGER'', multi = False\<rparr>),
      (''REQUEST-STATUS'', \<lparr>defaultType = ''TEXT'', multi = False\<rparr>)]"

definition getPropertyDef :: "string \<Rightarrow> PropertyDef option" where
  "getPropertyDef n = map_of PROPERTY_REGISTRY n"

text \<open>
  The effective value type: the \<open>VALUE\<close> parameter when it is a string that is not
  empty, upper-cased; else the default type of the name; else \<open>TEXT\<close>.
\<close>

definition resolveValueType :: "string \<Rightarrow> params \<Rightarrow> string" where
  "resolveValueType n ps =
     (case nonEmpty (map_option toUpperCase (stringParam ''VALUE'' ps)) of
        Some override \<Rightarrow> override
      | None \<Rightarrow> (case map_of PROPERTY_REGISTRY n of Some d \<Rightarrow> defaultType d | None \<Rightarrow> ''TEXT''))"

text \<open>Splitting a raw value at the commas that no backslash escapes.\<close>

fun splitMultiValueFrom :: "string \<Rightarrow> string \<Rightarrow> string list" where
  "splitMultiValueFrom current [] = [current]"
| "splitMultiValueFrom current [x] =
     (if x = CHR '','' then current # splitMultiValueFrom [] []
      else splitMultiValueFrom (current @ [x]) [])"
| "splitMultiValueFrom current (x # y # raw) =
     (if x = backslash then splitMultiValueFrom (current @ [x, y]) raw
      else if x = CHR '','' then current # splitMultiValueFrom [] (y # raw)
      else splitMultiValueFrom (current @ [x]) (y # raw))"

definition splitMultiValue :: "string \<Rightarrow> string list" where
  "splitMultiValue raw = splitMultiValueFrom [] raw"

text \<open>\<open>parts.map((p) => codec.parse(p, params))\<close>: the first failure ends the map.\<close>

fun parseAllParts :: "codec \<Rightarrow> params \<Rightarrow> string list \<Rightarrow> error + ical_value list" where
  "parseAllParts cd ps [] = Inr []"
| "parseAllParts cd ps (p # parts) =
     (case codec_parse cd p ps of
        Inl e \<Rightarrow> Inl e
      | Inr v \<Rightarrow> (case parseAllParts cd ps parts of Inl e \<Rightarrow> Inl e | Inr vs \<Rightarrow> Inr (v # vs)))"

text \<open>The body of the \<open>try\<close> block of \<open>parseProperty\<close>.\<close>

definition parsePropertyBody :: "string \<Rightarrow> string \<Rightarrow> params \<Rightarrow> error + Property" where
  "parsePropertyBody n raw ps =
     (let typeName = resolveValueType n ps;
          def = getPropertyDef n
      in if typeName = ''GEO'' then Inr (newProperty n (Single (VGeo (GEO_parse raw))) ps raw)
         else
           (let cd = (case CODECS typeName of Some c \<Rightarrow> c | None \<Rightarrow> TEXT) in
            if (case def of Some d \<Rightarrow> multi d | None \<Rightarrow> False)
            then (case parseAllParts cd ps (splitMultiValue raw) of
                    Inl e \<Rightarrow> Inl e
                  | Inr vs \<Rightarrow> Inr (newProperty n (Multi vs) ps raw))
            else (case codec_parse cd raw ps of
                    Inl e \<Rightarrow> Inl e
                  | Inr v \<Rightarrow> Inr (newProperty n (Single v) ps raw))))"

text \<open>
  \<open>parseProperty\<close>: whatever the body throws is caught, and the property then holds the
  raw string as its value.
\<close>

definition parseProperty :: "string \<Rightarrow> string \<Rightarrow> params \<Rightarrow> error + Property" where
  "parseProperty n raw ps =
     (case parsePropertyBody n raw ps of
        Inr p \<Rightarrow> Inr p
      | Inl e \<Rightarrow> Inr (newProperty n (Single (VText raw)) ps raw))"




section \<open>Components\<close>

text \<open>
  A component has its type, the ordered list of its properties, the index from a name to
  the properties of that name, and its child components. The methods that mutate a
  component return the new state.
\<close>

datatype Component =
  Component (ctype: string) (props: "Property list") (index: "string \<rightharpoonup> Property list")
    (components: "Component list")

definition newComponent :: "string \<Rightarrow> Component" where
  "newComponent t = Component (toUpperCase t) [] Map.empty []"

definition getProperties :: "string \<Rightarrow> Component \<Rightarrow> Property list" where
  "getProperties n c = (case index c (toUpperCase n) of Some ps \<Rightarrow> ps | None \<Rightarrow> [])"

definition getProperty :: "string \<Rightarrow> Component \<Rightarrow> Property option" where
  "getProperty n c =
     (case index c (toUpperCase n) of Some (p # ps) \<Rightarrow> Some p | _ \<Rightarrow> None)"

definition addProperty :: "Property \<Rightarrow> Component \<Rightarrow> Component" where
  "addProperty prop c =
     Component (ctype c) (props c @ [prop])
       (case index c (name prop) of
          Some existing \<Rightarrow> (index c)(name prop \<mapsto> existing @ [prop])
        | None \<Rightarrow> (index c)(name prop \<mapsto> [prop]))
       (components c)"

text \<open>\<open>xs.findIndex(P)\<close>; \<open>None\<close> stands for \<open>-1\<close>.\<close>

fun findIndex :: "('a \<Rightarrow> bool) \<Rightarrow> 'a list \<Rightarrow> nat option" where
  "findIndex P [] = None"
| "findIndex P (x # xs) =
     (if P x then Some 0 else (case findIndex P xs of None \<Rightarrow> None | Some i \<Rightarrow> Some (Suc i)))"

text \<open>\<open>xs.splice(i, 1)\<close> and \<open>xs.splice(i, 0, x)\<close>.\<close>

definition spliceOut :: "nat \<Rightarrow> 'a list \<Rightarrow> 'a list" where
  "spliceOut i xs = take i xs @ drop (Suc i) xs"

definition spliceIn :: "nat \<Rightarrow> 'a \<Rightarrow> 'a list \<Rightarrow> 'a list" where
  "spliceIn i x xs = take i xs @ x # drop i xs"

text \<open>
  \<open>setProperty\<close>: the first property of the name is spliced out of the list, the name is
  deleted from the index, and unless the value is absent the new property is spliced in
  where the old one was, or appended.
\<close>

definition setProperty :: "string \<Rightarrow> prop_value option \<Rightarrow> params \<Rightarrow> Component \<Rightarrow> Component" where
  "setProperty n v ps c =
     (let key = toUpperCase n;
          idx = findIndex (\<lambda>p. name p = key) (props c);
          props1 = (case idx of Some i \<Rightarrow> spliceOut i (props c) | None \<Rightarrow> props c);
          index1 = (index c)(key := None)
      in case v of
           None \<Rightarrow> Component (ctype c) props1 index1 (components c)
         | Some val \<Rightarrow>
             (let prop = newProperty key val ps [];
                  insertAt = (case idx of
                                Some i \<Rightarrow> if i < length props1 then i else length props1
                              | None \<Rightarrow> length props1)
              in Component (ctype c) (spliceIn insertAt prop props1) (index1(key \<mapsto> [prop]))
                   (components c)))"

definition appendProperty :: "string \<Rightarrow> prop_value \<Rightarrow> params \<Rightarrow> Component \<Rightarrow> Component" where
  "appendProperty n v ps c = addProperty (newProperty (toUpperCase n) v ps []) c"

definition removeProperty :: "string \<Rightarrow> Component \<Rightarrow> Component" where
  "removeProperty n c =
     (let key = toUpperCase n
      in Component (ctype c) (filter (\<lambda>p. name p \<noteq> key) (props c)) ((index c)(key := None))
           (components c))"

definition addComponent :: "Component \<Rightarrow> Component \<Rightarrow> Component" where
  "addComponent child c = Component (ctype c) (props c) (index c) (components c @ [child])"

section \<open>Line folding\<close>

text \<open>
  Folding counts UTF-8 octets from the UTF-16 code units of the line, so the line is a
  list of code units here (a code unit is a natural number below 65536; none of the
  functions depends on that bound).
\<close>

type_synonym ustring = "nat list"

definition charOctets :: "nat \<Rightarrow> nat" where
  "charOctets c =
     (if c < 0x80 then 1 else if c < 0x800 then 2 else if c < 0xd800 \<or> c \<ge> 0xe000 then 3 else 4)"

text \<open>\<open>octetLen\<close>: a surrogate counts four octets and the code unit after it is skipped.\<close>

fun octetLen :: "ustring \<Rightarrow> nat" where
  "octetLen [] = 0"
| "octetLen (c # cs) =
     (if c < 0x80 then 1 + octetLen cs
      else if c < 0x800 then 2 + octetLen cs
      else if c < 0xd800 \<or> c \<ge> 0xe000 then 3 + octetLen cs
      else 4 + octetLen (tl cs))"

text \<open>
  The inner loop of \<open>foldLine\<close>: from index \<open>e\<close> it advances while the next character
  fits the budget, by two code units over a high surrogate, and returns the index
  reached.
\<close>

function scanEnd :: "ustring \<Rightarrow> nat \<Rightarrow> nat \<Rightarrow> nat \<Rightarrow> nat" where
  "scanEnd line maxOctets e octets =
     (if e < length line then
        (let c = line ! e in
         if octets + charOctets c > maxOctets then e
         else scanEnd line maxOctets (e + (if c \<ge> 0xd800 \<and> c < 0xdc00 then 2 else 1))
                (octets + charOctets c))
      else e)"
  by pat_completeness auto
termination
  by (relation "measure (\<lambda>(line, m, e, oct). length line - e)") auto

declare scanEnd.simps [simp del]

text \<open>The scan never moves back, which is why the outer loop terminates.\<close>

lemma scanEnd_ge: "e \<le> scanEnd line m e oct"
proof (induction line m e oct rule: scanEnd.induct)
  case (1 line m e oct)
  show ?case
    apply (subst scanEnd.simps)
    using 1 by (auto simp: Let_def intro: le_trans[rotated])
qed

text \<open>
  The outer loop: the chunks from position \<open>pos\<close> on. Every chunk but the first starts
  with a space. The loop stops when a scan does not advance.
\<close>

function foldChunks :: "ustring \<Rightarrow> nat \<Rightarrow> bool \<Rightarrow> ustring list" where
  "foldChunks line pos firstLine =
     (if pos < length line then
        (let maxOctets = (if firstLine then 75 else 74);
             e = scanEnd line maxOctets pos 0
         in if e = pos then []
            else ((if firstLine then [] else [32]) @ slice pos e line) # foldChunks line e False)
      else [])"
  by pat_completeness auto
termination
proof (relation "measure (\<lambda>(line, pos, firstLine). length line - pos)", goal_cases)
  case 1
  show ?case by simp
next
  case (2 line pos firstLine maxOctets e)
  have "pos \<le> e" using 2 scanEnd_ge by auto
  with 2 show ?case by auto
qed

declare foldChunks.simps [simp del]

text \<open>
  \<open>foldLine\<close>: a line of at most 75 octets is returned as it is; otherwise the chunks
  are joined with CR LF.
\<close>

definition foldLine :: "ustring \<Rightarrow> ustring" where
  "foldLine line = (if octetLen line \<le> 75 then line else join [13, 10] (foldChunks line 0 True))"


section \<open>The tokenizer\<close>


















section \<open>Tree assembly and the document parser\<close>

text \<open>
  A raw property has its parameters flattened to strings: a list value is joined with
  commas.
\<close>

record RawProp =
  rp_name :: string
  rp_params :: "(string \<times> string) list"
  rp_value :: string

datatype RawNode = RawNode (rtype: string) (rprops: "RawProp list") (rchildren: "RawNode list")







text \<open>
  The factories \<open>fromRaw\<close> of the component classes: every raw property goes through
  \<open>parseProperty\<close> and \<open>addProperty\<close>, then the children are added.
\<close>

fun addRawProps :: "RawProp list \<Rightarrow> Component \<Rightarrow> error + Component" where
  "addRawProps [] c = Inr c"
| "addRawProps (p # ps) c =
     (case parseProperty (rp_name p) (rp_value p) (map (\<lambda>(k, v). (k, PStr v)) (rp_params p)) of
        Inl e \<Rightarrow> Inl e
      | Inr prop \<Rightarrow> addRawProps ps (addProperty prop c))"

definition fromRaw :: "string \<Rightarrow> RawProp list \<Rightarrow> Component list \<Rightarrow> error + Component" where
  "fromRaw t ps children =
     (case addRawProps ps (newComponent t) of
        Inl e \<Rightarrow> Inl e
      | Inr c \<Rightarrow> Inr (foldl (\<lambda>c child. addComponent child c) c children))"

text \<open>
  \<open>buildComponent\<close>: calendars, events, to-dos and time zones are built from their
  properties and their children; journals, free/busy components, alarms and time-zone
  rules from their properties only; any other type becomes a generic component.
\<close>

fun buildComponent :: "RawNode \<Rightarrow> error + Component"
  and buildComponents :: "RawNode list \<Rightarrow> error + Component list" where
  "buildComponent (RawNode t ps children) =
     (if t = ''VCALENDAR'' \<or> t = ''VEVENT'' \<or> t = ''VTODO'' \<or> t = ''VTIMEZONE''
      then (case buildComponents children of
              Inl e \<Rightarrow> Inl e
            | Inr cs \<Rightarrow> fromRaw t ps cs)
      else if t = ''VJOURNAL'' \<or> t = ''VFREEBUSY'' \<or> t = ''VALARM'' then fromRaw t ps []
      else if t = ''STANDARD'' \<or> t = ''DAYLIGHT''
      then fromRaw (if toUpperCase t = ''DAYLIGHT'' then ''DAYLIGHT'' else ''STANDARD'') ps []
      else (case addRawProps ps (newComponent t) of
              Inl e \<Rightarrow> Inl e
            | Inr c \<Rightarrow>
                (case buildComponents children of
                   Inl e \<Rightarrow> Inl e
                 | Inr cs \<Rightarrow> Inr (foldl (\<lambda>c child. addComponent child c) c cs))))"
| "buildComponents [] = Inr []"
| "buildComponents (n # ns) =
     (case buildComponent n of
        Inl e \<Rightarrow> Inl e
      | Inr c \<Rightarrow> (case buildComponents ns of Inl e \<Rightarrow> Inl e | Inr cs \<Rightarrow> Inr (c # cs)))"



section \<open>The claims\<close>

subsection \<open>TEXT escaping\<close>

text \<open>
  Claim C2 says that \<open>TEXT.parse (TEXT.serialize s) = s\<close> for every string. The parser
  runs four global replacements one after the other, the backslash-n pattern first. For
  the two-character text made of a backslash and the letter n, serialisation doubles the
  backslash, and the first replacement then reads the second backslash and the n as an
  escaped line break: the result is a backslash followed by a line break.
\<close>

theorem TEXT_roundtrip_backslash_n:
  "TEXT_serialize [backslash, CHR ''n''] = [backslash, backslash, CHR ''n''] \<and>
   TEXT_parse (TEXT_serialize [backslash, CHR ''n'']) = [backslash, newline] \<and>
   TEXT_parse (TEXT_serialize [backslash, CHR ''n'']) \<noteq> [backslash, CHR ''n'']"
  by (simp add: TEXT_parse_def TEXT_serialize_def replaceEscaped_def replaceChar_def backslash_def
      newline_def)

subsection \<open>DURATION with no unit\<close>

text \<open>
  Claim C3 says that a duration with every unit absent is written \<open>P0D\<close>. The serializer
  falls back to \<open>P0D\<close> only when the string built so far is empty, and that string always
  holds the letter P: the value with no unit is written as a bare \<open>P\<close>, and with the
  sign as \<open>-P\<close>.
\<close>

theorem DURATION_serialize_no_unit:
  "DURATION_serialize \<lparr>negative = False, weeks = None, days = None, hours = None,
       minutes = None, seconds = None\<rparr> = ''P'' \<and>
   DURATION_serialize \<lparr>negative = True, weeks = None, days = None, hours = None,
       minutes = None, seconds = None\<rparr> = ''-P''"
  by (simp add: DURATION_serialize_def unitStr_def)

subsection \<open>Replacing a property that occurs twice\<close>

text \<open>
  Claim C7 says that \<open>setProperty\<close> removes all properties of the name and leaves exactly
  one. The method splices out only the first property of the name. With two \<open>ATTENDEE\<close>
  properties added, setting \<open>ATTENDEE\<close> leaves two properties of that name in the ordered
  list (the new one and the second old one), and setting it to an absent value still
  leaves the second old one.
\<close>

definition attendee :: "string \<Rightarrow> Property" where
  "attendee a = newProperty ''ATTENDEE'' (Single (VText a)) [] a"

definition twoAttendees :: Component where
  "twoAttendees = addProperty (attendee ''b'') (addProperty (attendee ''a'') (newComponent ''VEVENT''))"

theorem setProperty_keeps_second_occurrence:
  "props (setProperty ''ATTENDEE'' (Some (Single (VText ''c''))) [] twoAttendees) =
     [newProperty ''ATTENDEE'' (Single (VText ''c'')) [] [], attendee ''b''] \<and>
   props (setProperty ''ATTENDEE'' None [] twoAttendees) = [attendee ''b'']"
  by (simp add: setProperty_def twoAttendees_def attendee_def addProperty_def newComponent_def
      newProperty_def toUpperCase_def upperChar_def code_def spliceOut_def spliceIn_def Let_def)

text \<open>
  Claim C9 says that after any sequence of \<open>addProperty\<close>, \<open>appendProperty\<close>,
  \<open>setProperty\<close> and \<open>removeProperty\<close> the index agrees with the ordered list. After two
  \<open>appendProperty\<close> calls for \<open>ATTENDEE\<close> and one \<open>setProperty\<close>, the index holds one
  property of the name, and the ordered list, which the serializer walks, holds two.
\<close>

definition appendedTwice :: Component where
  "appendedTwice =
     appendProperty ''ATTENDEE'' (Single (VText ''b'')) []
       (appendProperty ''ATTENDEE'' (Single (VText ''a'')) [] (newComponent ''VEVENT''))"

theorem index_disagrees_after_setProperty:
  "getProperties ''ATTENDEE'' (setProperty ''ATTENDEE'' (Some (Single (VText ''c''))) [] appendedTwice) =
     [newProperty ''ATTENDEE'' (Single (VText ''c'')) [] []] \<and>
   filter (\<lambda>p. name p = ''ATTENDEE'')
     (props (setProperty ''ATTENDEE'' (Some (Single (VText ''c''))) [] appendedTwice)) =
     [newProperty ''ATTENDEE'' (Single (VText ''c'')) [] [],
      newProperty ''ATTENDEE'' (Single (VText ''b'')) [] []]"
  by (simp add: setProperty_def appendedTwice_def appendProperty_def addProperty_def
      getProperties_def newComponent_def newProperty_def toUpperCase_def upperChar_def code_def
      spliceOut_def spliceIn_def Let_def)

subsection \<open>Line folding\<close>

text \<open>
  The analysis of \<open>foldLine\<close> works on the rest of the line from the current position
  on: \<open>scanLen\<close> is the number of code units one scan consumes, and \<open>segs\<close> lists the
  payloads of the chunks. A line is well formed when its surrogates come in pairs, a high
  one followed by a low one.
\<close>

definition isHigh :: "nat \<Rightarrow> bool" where
  "isHigh c = (0xd800 \<le> c \<and> c < 0xdc00)"

definition isLow :: "nat \<Rightarrow> bool" where
  "isLow c = (0xdc00 \<le> c \<and> c < 0xe000)"

fun wellFormed :: "ustring \<Rightarrow> bool" where
  "wellFormed [] = True"
| "wellFormed [c] = (\<not> isHigh c \<and> \<not> isLow c)"
| "wellFormed (c # d # cs) =
     (if isHigh c then isLow d \<and> wellFormed cs else \<not> isLow c \<and> wellFormed (d # cs))"

fun scanLen :: "nat \<Rightarrow> nat \<Rightarrow> ustring \<Rightarrow> nat" where
  "scanLen m oct [] = 0"
| "scanLen m oct (c # cs) =
     (if oct + charOctets c > m then 0
      else if isHigh c then 2 + scanLen m (oct + charOctets c) (tl cs)
      else 1 + scanLen m (oct + charOctets c) cs)"

lemma drop_nth_cons: "e < length line \<Longrightarrow> drop e line = line ! e # drop (Suc e) line"
  by (simp add: Cons_nth_drop_Suc)

lemma scanEnd_scanLen: "scanEnd line m e oct = e + scanLen m oct (drop e line)"
proof (induction line m e oct rule: scanEnd.induct)
  case (1 line m e oct)
  show ?case
  proof (cases "e < length line")
    case False
    then show ?thesis by (subst scanEnd.simps) simp
  next
    case True
    then have d: "drop e line = line ! e # drop (Suc e) line" by (rule drop_nth_cons)
    show ?thesis
    proof (cases "oct + charOctets (line ! e) > m")
      case True
      with \<open>e < length line\<close> d show ?thesis by (subst scanEnd.simps) simp
    next
      case False
      with \<open>e < length line\<close> 1 have
        "scanEnd line m e oct =
           (e + (if line ! e \<ge> 0xd800 \<and> line ! e < 0xdc00 then 2 else 1)) +
           scanLen m (oct + charOctets (line ! e))
             (drop (e + (if line ! e \<ge> 0xd800 \<and> line ! e < 0xdc00 then 2 else 1)) line)"
        by (subst scanEnd.simps) (simp add: Let_def)
      with False d show ?thesis
        by (simp add: isHigh_def drop_Suc tl_drop)
    qed
  qed
qed

lemma charOctets_le4: "charOctets c \<le> 4" and charOctets_pos: "0 < charOctets c"
  by (simp_all add: charOctets_def)

lemma scanLen_pos: "xs \<noteq> [] \<Longrightarrow> oct + 4 \<le> m \<Longrightarrow> 0 < scanLen m oct xs"
  using charOctets_le4 by (cases xs) (auto simp: not_less intro: le_trans[rotated])

function segs :: "bool \<Rightarrow> ustring \<Rightarrow> ustring list" where
  "segs firstLine xs =
     (if xs = [] then []
      else (let n = scanLen (if firstLine then 75 else 74) 0 xs
            in if n = 0 then [] else take n xs # segs False (drop n xs)))"
  by pat_completeness auto
termination
  by (relation "measure (\<lambda>(f, xs). length xs)") auto

declare segs.simps [simp del]

definition mark :: "bool \<Rightarrow> ustring list \<Rightarrow> ustring list" where
  "mark firstLine ss =
     (case ss of [] \<Rightarrow> [] | s # r \<Rightarrow> (if firstLine then s else 32 # s) # map ((#) 32) r)"

lemma mark_False: "mark False ss = map ((#) 32) ss"
  by (cases ss) (simp_all add: mark_def)

lemma foldChunks_segs: "foldChunks line pos firstLine = mark firstLine (segs firstLine (drop pos line))"
proof (induction line pos firstLine rule: foldChunks.induct)
  case (1 line pos firstLine)
  show ?case
  proof (cases "pos < length line")
    case False
    then show ?thesis
      by (subst foldChunks.simps, subst segs.simps) (simp add: mark_def)
  next
    case True
    define m where "m = (if firstLine then 75 else (74::nat))"
    define n where "n = scanLen m 0 (drop pos line)"
    have e: "scanEnd line m pos 0 = pos + n"
      by (simp add: scanEnd_scanLen n_def)
    have ne: "drop pos line \<noteq> []" using True by simp
    have "0 < n" unfolding n_def using ne by (rule scanLen_pos) (simp add: m_def)
    then have neq: "pos + n \<noteq> pos" by simp
    have IH: "foldChunks line (pos + n) False = mark False (segs False (drop (pos + n) line))"
      using 1[OF True refl refl] neq e by (simp add: m_def)
    have l: "foldChunks line pos firstLine =
            ((if firstLine then [] else [32]) @ slice pos (pos + n) line) # foldChunks line (pos + n) False"
      using True neq e by (subst foldChunks.simps) (simp add: Let_def m_def)
    have r: "segs firstLine (drop pos line) = take n (drop pos line) # segs False (drop n (drop pos line))"
      using ne \<open>0 < n\<close> by (subst segs.simps) (simp add: Let_def n_def m_def)
    show ?thesis
      unfolding l r IH mark_False by (simp add: mark_def slice_def add.commute)
  qed
qed


lemma octetLen_Cons: "octetLen (c # cs) = charOctets c + octetLen (if charOctets c = 4 then tl cs else cs)"
  by (simp add: charOctets_def)

declare octetLen.simps(2) [simp del]

lemma charOctets_high: "isHigh c \<Longrightarrow> charOctets c = 4"
  and charOctets_low: "isLow c \<Longrightarrow> charOctets c = 4"
  and charOctets_4: "charOctets c = 4 \<longleftrightarrow> isHigh c \<or> isLow c"
  by (auto simp: charOctets_def isHigh_def isLow_def)

lemma wellFormed_Cons:
  "wellFormed (c # cs) \<longleftrightarrow>
     (if isHigh c then (\<exists>d ds. cs = d # ds \<and> isLow d \<and> wellFormed ds) else \<not> isLow c \<and> wellFormed cs)"
  by (cases cs) auto

text \<open>Facts about one scan over a well-formed suffix.\<close>

lemma scanLen_wf:
  "wellFormed xs \<Longrightarrow> oct \<le> m \<Longrightarrow>
     scanLen m oct xs \<le> length xs \<and>
     wellFormed (take (scanLen m oct xs) xs) \<and>
     wellFormed (drop (scanLen m oct xs) xs) \<and>
     oct + octetLen (take (scanLen m oct xs) xs) \<le> m \<and>
     (scanLen m oct xs < length xs \<longrightarrow>
        m < oct + octetLen (take (scanLen m oct xs) xs) + charOctets (xs ! scanLen m oct xs))"
proof (induction m oct xs rule: scanLen.induct)
  case (1 m oct)
  then show ?case by simp
next
  case (2 m oct c cs)
  show ?case
  proof (cases "oct + charOctets c > m")
    case True
    with 2 show ?thesis by auto
  next
    case nf: False
    show ?thesis
    proof (cases "isHigh c")
      case True
      with "2.prems" obtain d ds where cs: "cs = d # ds" "isLow d" "wellFormed ds"
        by (auto simp: wellFormed_Cons)
      from "2.IH"(1)[OF nf True] cs nf have
        IH: "scanLen m (oct + charOctets c) ds \<le> length ds \<and>
     wellFormed (take (scanLen m (oct + charOctets c) ds) ds) \<and>
     wellFormed (drop (scanLen m (oct + charOctets c) ds) ds) \<and>
     oct + charOctets c + octetLen (take (scanLen m (oct + charOctets c) ds) ds) \<le> m \<and>
     (scanLen m (oct + charOctets c) ds < length ds \<longrightarrow> m < oct + charOctets c + octetLen (take (scanLen m (oct + charOctets c) ds) ds) + charOctets (ds ! scanLen m (oct + charOctets c) ds))"
        by simp
      have s: "scanLen m oct (c # cs) = Suc (Suc (scanLen m (oct + charOctets c) ds))"
        using nf True cs by simp
      show ?thesis unfolding s using IH True cs
        by (simp add: octetLen_Cons charOctets_high wellFormed_Cons add.assoc)
    next
      case False
      with "2.prems" have nl: "\<not> isLow c" "wellFormed cs" by (auto simp: wellFormed_Cons)
      from "2.IH"(2)[OF nf False] nl nf have
        IH: "scanLen m (oct + charOctets c) cs \<le> length cs \<and>
     wellFormed (take (scanLen m (oct + charOctets c) cs) cs) \<and>
     wellFormed (drop (scanLen m (oct + charOctets c) cs) cs) \<and>
     oct + charOctets c + octetLen (take (scanLen m (oct + charOctets c) cs) cs) \<le> m \<and>
     (scanLen m (oct + charOctets c) cs < length cs \<longrightarrow> m < oct + charOctets c + octetLen (take (scanLen m (oct + charOctets c) cs) cs) + charOctets (cs ! scanLen m (oct + charOctets c) cs))"
        by simp
      have s: "scanLen m oct (c # cs) = Suc (scanLen m (oct + charOctets c) cs)"
        using nf False by simp
      have c4: "charOctets c \<noteq> 4" using False nl by (simp add: charOctets_4)
      show ?thesis unfolding s using IH False nl c4
        by (simp add: octetLen_Cons wellFormed_Cons add.assoc)
    qed
  qed
qed


lemma octetLen_append: "wellFormed xs \<Longrightarrow> octetLen (xs @ ys) = octetLen xs + octetLen ys"
proof (induction xs rule: wellFormed.induct)
  case 1
  then show ?case by simp
next
  case (2 c)
  then show ?case by (simp add: octetLen_Cons charOctets_4)
next
  case (3 c d cs)
  then show ?case
    by (cases "isHigh c") (simp_all add: octetLen_Cons charOctets_4)
qed

lemma scanLen_all:
  "wellFormed xs \<Longrightarrow> oct + octetLen xs \<le> m \<Longrightarrow> scanLen m oct xs = length xs"
proof (induction xs arbitrary: oct rule: wellFormed.induct)
  case 1
  then show ?case by simp
next
  case (2 c)
  then show ?case by (simp add: octetLen_Cons)
next
  case (3 c d cs)
  show ?case
  proof (cases "isHigh c")
    case True
    with 3 show ?thesis by (simp add: octetLen_Cons charOctets_high add.assoc)
  next
    case False
    with "3.prems" have c4: "charOctets c \<noteq> 4" by (simp add: charOctets_4)
    have "octetLen (c # d # cs) = charOctets c + octetLen (d # cs)"
      by (subst octetLen_Cons) (simp add: c4)
    with "3.prems" have le: "oct + charOctets c + octetLen (d # cs) \<le> m"
      by simp
    from False "3.prems" have sc: "scanLen m (oct + charOctets c) (d # cs) = length (d # cs)"
      by (intro "3.IH"(2) le) simp_all
    have "\<not> m < oct + charOctets c" using le by simp
    then show ?thesis using False sc by simp
  qed
qed

lemma ascii_wellFormed: "list_all (\<lambda>c. c < 0x80) xs \<Longrightarrow> wellFormed xs"
  by (induction xs rule: wellFormed.induct) (auto simp: isHigh_def isLow_def)

lemma segs_Cons:
  "xs \<noteq> [] \<Longrightarrow>
   segs f xs = take (scanLen (if f then 75 else 74) 0 xs) xs
                 # segs False (drop (scanLen (if f then 75 else 74) 0 xs) xs)"
  using scanLen_pos[of xs 0 "if f then 75 else 74"] by (subst segs.simps) (simp add: Let_def)

lemma segs_Nil: "segs f [] = []"
  by (subst segs.simps) simp

lemma concat_segs: "concat (segs f xs) = xs"
proof (induction f xs rule: segs.induct)
  case (1 f xs)
  show ?case
  proof (cases "xs = []")
    case True
    then show ?thesis by (simp add: segs_Nil)
  next
    case False
    have "0 < scanLen (if f then 75 else 74) 0 xs"
      using False by (rule scanLen_pos) simp
    with 1[OF False refl] show ?thesis by (simp add: segs_Cons[OF False])
  qed
qed

lemma segs_rest:
  "wellFormed xs \<Longrightarrow>
   list_all (\<lambda>r. r \<noteq> [] \<and> octetLen r \<le> 74 \<and> wellFormed r) (segs False xs)"
proof (induction "False" xs rule: segs.induct)
  case (1 xs)
  show ?case
  proof (cases "xs = []")
    case True
    then show ?thesis by (simp add: segs_Nil)
  next
    case False
    have pos: "0 < scanLen 74 0 xs"
      using False by (rule scanLen_pos) simp
    from scanLen_wf[OF "1.prems", of 0 74] have
      w: "wellFormed (take (scanLen 74 0 xs) xs)" "wellFormed (drop (scanLen 74 0 xs) xs)"
         "octetLen (take (scanLen 74 0 xs) xs) \<le> 74"
      by simp_all
    from pos False have ne: "take (scanLen 74 0 xs) xs \<noteq> []" by (cases xs) auto
    from "1.hyps"[OF False _ _ w(2)] pos have
      "list_all (\<lambda>r. r \<noteq> [] \<and> octetLen r \<le> 74 \<and> wellFormed r) (segs False (drop (scanLen 74 0 xs) xs))"
      by simp
    with w ne show ?thesis by (simp add: segs_Cons[OF False])
  qed
qed


lemma octetLen_ascii: "list_all (\<lambda>c. c < 0x80) xs \<Longrightarrow> octetLen xs = length xs"
  by (induction xs) (simp_all add: octetLen_Cons charOctets_def)

text \<open>
  Claim C4 says that the first segment of a folded line has exactly 75 octets. A line of
  74 ASCII characters followed by one two-octet character (U+00E9) has 76 octets; the
  two-octet character does not fit after 74 octets, so the first segment has 74 octets.
  What holds for every well-formed line: a line of at most 75 octets is returned as it
  is; a longer line is cut into a first segment of at most 75 and more than 71 octets
  (exactly 75 when the line is ASCII) and at least one further segment of at most 74
  octets, each further segment after one space, joined with CR LF; the segments are well
  formed, so no surrogate pair is cut, and put together they are the line; a line of 76
  octets gives exactly two segments.
\<close>

theorem foldLine_segments:
  assumes wf: "wellFormed line"
  shows "(octetLen line \<le> 75 \<longrightarrow> foldLine line = line) \<and>
         (75 < octetLen line \<longrightarrow>
            (\<exists>first rest.
               foldLine line = join [13, 10] (first # map ((#) 32) rest) \<and>
               first @ concat rest = line \<and> rest \<noteq> [] \<and>
               wellFormed first \<and> octetLen first \<le> 75 \<and> 71 < octetLen first \<and>
               (\<forall>r \<in> set rest. r \<noteq> [] \<and> wellFormed r \<and> octetLen r \<le> 74) \<and>
               (list_all (\<lambda>c. c < 0x80) line \<longrightarrow> octetLen first = 75) \<and>
               (octetLen line = 76 \<longrightarrow> length rest = 1)))"
proof (intro conjI impI)
  assume "octetLen line \<le> 75"
  then show "foldLine line = line" by (simp add: foldLine_def)
next
  assume long: "75 < octetLen line"
  then have ne: "line \<noteq> []" by auto
  define n where "n = scanLen 75 0 line"
  define first where "first = take n line"
  define rest where "rest = segs False (drop n line)"
  from scanLen_wf[OF wf, of 0 75] have
    n_le: "n \<le> length line" and wf1: "wellFormed first" and wf2: "wellFormed (drop n line)"
    and le75: "octetLen first \<le> 75"
    and mx: "n < length line \<longrightarrow> 75 < octetLen first + charOctets (line ! n)"
    by (simp_all add: n_def first_def)
  have n_lt: "n < length line"
  proof (rule ccontr)
    assume "\<not> n < length line"
    with n_le have "first = line" by (simp add: first_def)
    with le75 long show False by simp
  qed
  have sg: "segs True line = first # rest"
    using segs_Cons[OF ne, of True] by (simp add: first_def rest_def n_def)
  have fl: "foldLine line = join [13, 10] (first # map ((#) 32) rest)"
    using long by (simp add: foldLine_def foldChunks_segs sg mark_def)
  have cc: "first @ concat rest = line"
    using concat_segs[of True line] by (simp add: sg)
  have dne: "drop n line \<noteq> []" using n_lt by simp
  have rne: "rest \<noteq> []"
    unfolding rest_def using segs_Cons[OF dne, of False] by simp
  have gt71: "71 < octetLen first"
    using mx n_lt charOctets_le4[of "line ! n"] by simp
  have rs: "\<forall>r \<in> set rest. r \<noteq> [] \<and> wellFormed r \<and> octetLen r \<le> 74"
    using segs_rest[OF wf2] by (simp add: rest_def list_all_iff)
  have ascii: "list_all (\<lambda>c. c < 0x80) line \<longrightarrow> octetLen first = 75"
  proof
    assume a: "list_all (\<lambda>c. c < 0x80) line"
    with n_lt have "line ! n < 0x80" by (simp add: list_all_length)
    then have "charOctets (line ! n) = 1" by (simp add: charOctets_def)
    with mx n_lt le75 show "octetLen first = 75" by simp
  qed
  have two: "octetLen line = 76 \<longrightarrow> length rest = 1"
  proof
    assume e: "octetLen line = 76"
    have "octetLen line = octetLen first + octetLen (drop n line)"
      using octetLen_append[OF wf1, of "drop n line"] by (simp add: first_def)
    with e gt71 have "0 + octetLen (drop n line) \<le> 74" by simp
    with wf2 have "scanLen 74 0 (drop n line) = length (drop n line)" by (rule scanLen_all)
    then have "rest = [drop n line]"
      unfolding rest_def using segs_Cons[OF dne, of False] by (simp add: segs_Nil)
    then show "length rest = 1" by simp
  qed
  from fl cc rne wf1 le75 gt71 rs ascii two
  show "\<exists>first rest.
               foldLine line = join [13, 10] (first # map ((#) 32) rest) \<and>
               first @ concat rest = line \<and> rest \<noteq> [] \<and>
               wellFormed first \<and> octetLen first \<le> 75 \<and> 71 < octetLen first \<and>
               (\<forall>r \<in> set rest. r \<noteq> [] \<and> wellFormed r \<and> octetLen r \<le> 74) \<and>
               (list_all (\<lambda>c. c < 0x80) line \<longrightarrow> octetLen first = 75) \<and>
               (octetLen line = 76 \<longrightarrow> length rest = 1)"
    by blast
qed



lemma scanLen_replicate:
  "c < 0x80 \<Longrightarrow> oct + k \<le> m \<Longrightarrow>
     scanLen m oct (replicate k c @ xs) = k + scanLen m (oct + k) xs"
proof (induction k arbitrary: oct)
  case 0
  then show ?case by simp
next
  case (Suc k)
  from Suc.prems have c1: "charOctets c = 1" "\<not> isHigh c"
    by (simp_all add: charOctets_def isHigh_def)
  from Suc.prems have "scanLen m (oct + 1) (replicate k c @ xs) = k + scanLen m (oct + 1 + k) xs"
    by (intro Suc.IH) simp_all
  with Suc.prems c1 show ?case by simp
qed

lemma octetLen_replicate: "c < 0x80 \<Longrightarrow> octetLen (replicate k c @ xs) = k + octetLen xs"
  by (induction k) (simp_all add: octetLen_Cons charOctets_def)

text \<open>The 76-octet line of claim C4 whose first segment has 74 octets.\<close>

theorem foldLine_first_segment_74:
  "octetLen (replicate 74 97 @ [233]) = 76 \<and>
   foldLine (replicate 74 97 @ [233]) = join [13, 10] [replicate 74 97, [32, 233]] \<and>
   octetLen (replicate 74 97) = 74"
proof -
  have o: "octetLen (replicate 74 97 @ [233]) = 76"
    by (simp add: octetLen_replicate octetLen_Cons charOctets_def)
  have o1: "octetLen (replicate 74 97) = 74"
    using octetLen_replicate[of 97 74 "[]"] by simp
  have n: "scanLen 75 0 (replicate 74 97 @ [233]) = 74"
    by (simp add: scanLen_replicate charOctets_def)
  have s1: "segs True (replicate 74 97 @ [233]) = replicate 74 97 # segs False [233]"
    by (subst segs_Cons) (simp_all add: n)
  have s2: "segs False [233] = [[233]]"
    by (subst segs_Cons) (simp_all add: charOctets_def isHigh_def segs_Nil)
  show ?thesis
    using o o1 by (simp add: foldLine_def foldChunks_segs s1 s2 mark_def)
qed

text \<open>A line of 76 ASCII characters meets every hypothesis of the theorem.\<close>

theorem foldLine_segments_witness:
  "wellFormed (replicate 76 97) \<and> octetLen (replicate 76 97) = 76 \<and>
   list_all (\<lambda>c. c < 0x80) (replicate 76 (97::nat)) \<and>
   (\<exists>first rest.
      foldLine (replicate 76 97) = join [13, 10] (first # map ((#) 32) rest) \<and>
      first @ concat rest = replicate 76 97 \<and> octetLen first = 75 \<and> length rest = 1)"
proof -
  have h3: "list_all (\<lambda>c. c < 0x80) (replicate 76 (97::nat))"
    by (simp add: list_all_iff)
  have h1: "wellFormed (replicate 76 97)"
    using h3 by (rule ascii_wellFormed)
  have h2: "octetLen (replicate 76 97) = 76"
    using octetLen_ascii[OF h3] by simp
  from foldLine_segments[OF h1] h2 h3 have
    "\<exists>first rest.
      foldLine (replicate 76 97) = join [13, 10] (first # map ((#) 32) rest) \<and>
      first @ concat rest = replicate 76 97 \<and> octetLen first = 75 \<and> length rest = 1"
    by (elim conjE) (simp, blast)
  with h1 h2 h3 show ?thesis by blast
qed


subsection \<open>The property factory never fails\<close>





text \<open>
  Claim C10: \<open>parseProperty\<close> returns a property for every name, raw value and parameter
  mapping. The property has the upper-cased name, the parameters and the raw value it was
  given; it is the property that the body of the \<open>try\<close> block built, or else that body
  threw and the value of the property is the raw string.
\<close>

theorem parseProperty_total:
  "\<exists>p. parseProperty n raw ps = Inr p \<and> name p = toUpperCase n \<and> params p = ps \<and>
        rawValue p = raw \<and>
        (parsePropertyBody n raw ps = Inr p \<or>
         (\<exists>e. parsePropertyBody n raw ps = Inl e) \<and> pvalue p = Single (VText raw))"
proof (cases "parsePropertyBody n raw ps")
  case (Inl e)
  then show ?thesis by (simp add: parseProperty_def newProperty_def)
next
  case (Inr p)
  then have "name p = toUpperCase n \<and> params p = ps \<and> rawValue p = raw"
    by (auto simp: parsePropertyBody_def Let_def newProperty_def split: if_splits sum.splits)
  with Inr show ?thesis by (simp add: parseProperty_def)
qed








subsection \<open>The document parser never fails\<close>

lemma parseProperty_Inr: "\<exists>p. parseProperty n raw ps = Inr p"
  by (cases "parsePropertyBody n raw ps") (simp_all add: parseProperty_def)

lemma addRawProps_Inr: "\<exists>c'. addRawProps ps c = Inr c' \<and> ctype c' = ctype c \<and> components c' = components c"
proof (induction ps arbitrary: c)
  case Nil
  then show ?case by simp
next
  case (Cons p ps)
  obtain pr where pr: "parseProperty (rp_name p) (rp_value p) (map (\<lambda>(k, v). (k, PStr v)) (rp_params p)) = Inr pr"
    using parseProperty_Inr by blast
  from Cons[of "addProperty pr c"] pr show ?case by (simp add: addProperty_def)
qed

lemma foldl_addComponent_ctype: "ctype (foldl (\<lambda>c child. addComponent child c) c cs) = ctype c"
  by (induction cs arbitrary: c) (simp_all add: addComponent_def)

lemma fromRaw_Inr: "\<exists>c. fromRaw t ps cs = Inr c \<and> ctype c = toUpperCase t"
proof -
  obtain c where "addRawProps ps (newComponent t) = Inr c" "ctype c = ctype (newComponent t)"
    using addRawProps_Inr by blast
  then show ?thesis by (simp add: fromRaw_def foldl_addComponent_ctype newComponent_def)
qed

lemma fromRaw_ex: "\<exists>c. fromRaw t ps cs = Inr c"
  using fromRaw_Inr by blast

lemma buildComponent_Inr:
  "\<exists>c. buildComponent n = Inr c" and buildComponents_Inr: "\<exists>cs. buildComponents ns = Inr cs"
proof (induction n and ns rule: buildComponent_buildComponents.induct)
  case (1 t ps children)
  obtain c0 where c0: "addRawProps ps (newComponent t) = Inr c0" using addRawProps_Inr by blast
  show ?case
  proof (cases "t = ''VCALENDAR'' \<or> t = ''VEVENT'' \<or> t = ''VTODO'' \<or> t = ''VTIMEZONE''")
    case True
    with 1(1) obtain cs where "buildComponents children = Inr cs" by blast
    with True show ?thesis by (simp add: fromRaw_ex)
  next
    case False
    note nf = False
    show ?thesis
    proof (cases "t = ''VJOURNAL'' \<or> t = ''VFREEBUSY'' \<or> t = ''VALARM''")
      case True
      with nf show ?thesis by (simp add: fromRaw_ex)
    next
      case False
      note nj = False
      show ?thesis
      proof (cases "t = ''STANDARD'' \<or> t = ''DAYLIGHT''")
        case True
        with nf nj show ?thesis by (simp add: fromRaw_ex)
      next
        case False
        from 1(2)[OF nf nj False c0] obtain cs where "buildComponents children = Inr cs" by blast
        with nf nj False c0 show ?thesis by simp
      qed
    qed
  qed
next
  case 2
  then show ?case by simp
next
  case (3 n ns)
  then show ?case by auto
qed








subsection \<open>Parameter values: lists and strings\<close>











end
